theory Spec2Isabelle
  imports Main
begin

section \<open>Python values used by the controller\<close>

text \<open>
  The Twilio actions of \<^verbatim>\<open>src/controller/custom_controller.py\<close> are embedded as
  functions over an explicit world. A Python \<^verbatim>\<open>str\<close> is a list of characters, one
  \<open>char\<close> per code point; \<open>char\<close> has 256 values, so the development covers text
  whose code points are below 256.
\<close>

type_synonym str = string

text \<open>The exceptions that the built-in operations called by the actions can raise.\<close>

datatype exn =
    JSONDecodeError
  | UnicodeDecodeError
  | AttributeError
  | TypeError
  | KeyError
  | IndexError
  | FileNotFoundError
  | ValueError

text \<open>
  What \<^verbatim>\<open>json.loads\<close> returns: \<^verbatim>\<open>None\<close>, a bool, an int, a float (mantissa and
  binary exponent; no action reads a number), a str, a list or a dict. A dict is kept as
  an association list; \<open>map_of\<close> is its lookup.
\<close>

datatype json =
    JNull
  | JBool bool
  | JInt int
  | JFloat int int
  | JStr str
  | JList "json list"
  | JDict "(str \<times> json) list"

text \<open>\<^verbatim>\<open>str.lower()\<close> on code points below 256: A-Z and the Latin-1 capitals move by 32.\<close>

definition lower_char :: "char \<Rightarrow> char" where
  "lower_char c =
     (let n = (of_char c :: nat) in
      if (65 \<le> n \<and> n \<le> 90) \<or> (192 \<le> n \<and> n \<le> 214) \<or> (216 \<le> n \<and> n \<le> 222)
      then char_of (n + 32) else c)"

definition lower :: "str \<Rightarrow> str" where
  "lower s = map lower_char s"

text \<open>
  \<^verbatim>\<open>str.strip()\<close> without argument removes leading and trailing characters for which
  \<^verbatim>\<open>str.isspace\<close> holds: below 256 these are 9-13, 28-32, 133 and 160.
\<close>

definition isspace :: "char \<Rightarrow> bool" where
  "isspace c =
     (let n = (of_char c :: nat) in
      (9 \<le> n \<and> n \<le> 13) \<or> (28 \<le> n \<and> n \<le> 32) \<or> n = 133 \<or> n = 160)"

definition strip :: "str \<Rightarrow> str" where
  "strip s = rev (dropWhile isspace (rev (dropWhile isspace s)))"

text \<open>Truthiness of an \<^verbatim>\<open>Optional[str]\<close>: \<^verbatim>\<open>None\<close> and the empty string are false.\<close>

fun truthy :: "str option \<Rightarrow> bool" where
  "truthy None = False"
| "truthy (Some s) = (s \<noteq> [])"

text \<open>The built-in \<^verbatim>\<open>all\<close> on a list of such values.\<close>

definition py_all :: "str option list \<Rightarrow> bool" where
  "py_all xs = list_all truthy xs"

text \<open>An \<^verbatim>\<open>Optional[str]\<close> inside an f-string.\<close>

fun format_str :: "str option \<Rightarrow> str" where
  "format_str None = ''None''"
| "format_str (Some s) = s"

text \<open>\<^verbatim>\<open>d.get(key, default)\<close>: only a dict has the method.\<close>

fun dict_get :: "json \<Rightarrow> str \<Rightarrow> json \<Rightarrow> exn + json" where
  "dict_get (JDict kvs) k d = Inr (case map_of kvs k of Some v \<Rightarrow> v | None \<Rightarrow> d)"
| "dict_get _ k d = Inl AttributeError"

text \<open>\<^verbatim>\<open>len(x)\<close>: the elements of a list, the characters of a str, the keys of a dict.\<close>

fun py_len :: "json \<Rightarrow> exn + nat" where
  "py_len (JList xs) = Inr (length xs)"
| "py_len (JStr s) = Inr (length s)"
| "py_len (JDict kvs) = Inr (length (remdups (map fst kvs)))"
| "py_len _ = Inl TypeError"

text \<open>
  \<^verbatim>\<open>x[i]\<close> for a non-negative integer \<open>i\<close>. The keys of a dict that came from JSON
  are strings, so an integer is never one of them.
\<close>

fun getitem :: "json \<Rightarrow> nat \<Rightarrow> exn + json" where
  "getitem (JList xs) i = (if i < length xs then Inr (xs ! i) else Inl IndexError)"
| "getitem (JStr s) i = (if i < length s then Inr (JStr [s ! i]) else Inl IndexError)"
| "getitem (JDict kvs) i = Inl KeyError"
| "getitem _ i = Inl TypeError"

text \<open>\<^verbatim>\<open>x.strip()\<close>: only a str has the method.\<close>

fun attr_strip :: "json \<Rightarrow> exn + str" where
  "attr_strip (JStr s) = Inr (strip s)"
| "attr_strip _ = Inl AttributeError"

section \<open>The world outside the controller\<close>

text \<open>
  The bytes read from a pipe are used in two ways only: \<^verbatim>\<open>b.decode()\<close> and
  \<^verbatim>\<open>json.loads(b)\<close>. Both belong to the Python standard library, so a byte string is
  represented by what these two calls yield on it.
\<close>

record bytes =
  decode :: "exn + str"
  json_loads :: "exn + json"

text \<open>
  A finished subprocess, after \<^verbatim>\<open>communicate()\<close>: its return code and what it wrote
  to the two pipes. The field \<open>http_status\<close> is not part of the Python object: it
  records the status line of the answer of the provider, if curl received one. curl is
  started without \<^verbatim>\<open>--fail\<close>, \<^verbatim>\<open>--include\<close> or \<^verbatim>\<open>--write-out\<close>, so neither the return
  code nor the pipes carry the status line, and no action reads it.
\<close>

record process =
  returncode :: int
  http_status :: "nat option"
  stdout :: bytes
  stderr :: bytes

text \<open>
  The world: the process environment, what launching a command and waiting for it
  yields (an exception when the program cannot be started), and the commands launched
  so far.
\<close>

record world =
  environ :: "str \<rightharpoonup> str"
  run :: "str list \<Rightarrow> exn + process"
  launched :: "str list list"

definition getenv :: "world \<Rightarrow> str \<Rightarrow> str option" where
  "getenv w k = environ w k"

text \<open>\<^verbatim>\<open>asyncio.create_subprocess_exec\<close> followed by \<^verbatim>\<open>communicate()\<close>.\<close>

definition create_subprocess_exec :: "str list \<Rightarrow> world \<Rightarrow> (exn + process) \<times> world" where
  "create_subprocess_exec cmd w = (run w cmd, w\<lparr>launched := launched w @ [cmd]\<rparr>)"

section \<open>Parameter and result objects\<close>

text \<open>
  Modelled from the spec: \<^verbatim>\<open>ActionResult\<close> and \<^verbatim>\<open>DoneAction\<close> are declared in the
  host package \<^verbatim>\<open>browser_use\<close>. The result object has the fields extracted content,
  error and is-done flag; a field not given to the constructor is \<^verbatim>\<open>None\<close>, the flag
  \<^verbatim>\<open>False\<close>. \<^verbatim>\<open>DoneAction\<close> carries the text of the finished task in its field
  \<^verbatim>\<open>text\<close>, here \<open>done_text\<close>.
\<close>

record ActionResult =
  is_done :: bool
  extracted_content :: "str option"
  error :: "str option"

record DoneAction =
  done_text :: str

record SendTwilioMessageAction =
  message :: str

record VerifyTwilioMessageAction =
  expected_message :: "str option"

text \<open>\<^verbatim>\<open>ActionResult(extracted_content=s)\<close> and \<^verbatim>\<open>ActionResult(error=s)\<close>.\<close>

definition content_result :: "str \<Rightarrow> ActionResult" where
  "content_result s = \<lparr>is_done = False, extracted_content = Some s, error = None\<rparr>"

definition error_result :: "str \<Rightarrow> ActionResult" where
  "error_result s = \<lparr>is_done = False, extracted_content = None, error = Some s\<rparr>"

section \<open>The actions\<close>

text \<open>
  Logging and printing do not influence a result and are left out. An action returns
  \<open>Inr r\<close> for the \<^verbatim>\<open>ActionResult\<close> \<open>r\<close> or \<open>Inl e\<close> when the exception \<open>e\<close>
  leaves it, together with the world after the call.
\<close>

text \<open>The argument vector of the sending curl call (source lines 106 to 114).\<close>

definition send_command :: "world \<Rightarrow> SendTwilioMessageAction \<Rightarrow> str list" where
  "send_command w params =
     (let account_sid = getenv w ''TWILIO_ACCOUNT_SID'';
          auth_token = getenv w ''TWILIO_AUTH_TOKEN'';
          to_number = getenv w ''TWILIO_WHATSAPP_TO'';
          from_number = getenv w ''TWILIO_WHATSAPP_FROM'';
          message_body = message params
      in [''curl'',
          ''-X'', ''POST'',
          ''https://api.twilio.com/2010-04-01/Accounts/'' @ format_str account_sid @ ''/Messages.json'',
          ''--data-urlencode'', ''To='' @ format_str to_number,
          ''--data-urlencode'', ''From='' @ format_str from_number,
          ''--data-urlencode'', ''Body='' @ message_body,
          ''-u'', format_str account_sid @ '':'' @ format_str auth_token])"

definition send_twilio_message ::
  "SendTwilioMessageAction \<Rightarrow> world \<Rightarrow> (exn + ActionResult) \<times> world" where
  "send_twilio_message params w =
     (let account_sid = getenv w ''TWILIO_ACCOUNT_SID'';
          auth_token = getenv w ''TWILIO_AUTH_TOKEN'';
          to_number = getenv w ''TWILIO_WHATSAPP_TO'';
          from_number = getenv w ''TWILIO_WHATSAPP_FROM''
      in if \<not> py_all [account_sid, auth_token, to_number, from_number]
         then (Inr (error_result ''Missing Twilio credentials in environment variables''), w)
         else
           (case create_subprocess_exec (send_command w params) w of
              (Inl e, w') \<Rightarrow> (Inl e, w')
            | (Inr p, w') \<Rightarrow>
                if returncode p = 0
                then (Inr (content_result ''Message sent successfully''), w')
                else (case decode (stderr p) of
                        Inl e \<Rightarrow> (Inl e, w')
                      | Inr t \<Rightarrow> (Inr (error_result (''Failed to send WhatsApp message: '' @ t)), w'))))"

text \<open>
  The overwritten "Done" action, \<^verbatim>\<open>done\<close> in the source. The registering decorator
  leaves the name \<^verbatim>\<open>send_twilio_message\<close> bound to the function below it, which the
  action awaits; an exception of the awaited call is not caught.
\<close>

definition done_action :: "DoneAction \<Rightarrow> world \<Rightarrow> (exn + ActionResult) \<times> world" where
  "done_action params w =
     (let done_message = \<lparr>message = done_text params\<rparr>
      in case send_twilio_message done_message w of
           (Inl e, w') \<Rightarrow> (Inl e, w')
         | (Inr send_result, w') \<Rightarrow>
             (Inr \<lparr>is_done = True,
                   extracted_content = Some (''Task completed: '' @ done_text params),
                   error = None\<rparr>, w'))"

text \<open>
  The verification of the selected record (source lines 166 to 183). The lookup of
  \<^verbatim>\<open>from\<close> feeds the log line only and cannot raise once the lookup of \<^verbatim>\<open>body\<close>
  has succeeded.
\<close>

definition check_message :: "VerifyTwilioMessageAction \<Rightarrow> json \<Rightarrow> exn + ActionResult" where
  "check_message params second_last_message =
     (case dict_get second_last_message ''body'' (JStr '''') of
        Inl e \<Rightarrow> Inl e
      | Inr body \<Rightarrow>
          (case attr_strip body of
             Inl e \<Rightarrow> Inl e
           | Inr stripped \<Rightarrow>
               (let received_message = lower stripped
                in if truthy (expected_message params)
                   then
                     (if received_message = lower (the (expected_message params))
                      then Inr (content_result ''Message verified successfully.'')
                      else Inr (error_result ''Received message does not match the expected message.''))
                   else
                     (if received_message = ''yes''
                      then Inr (content_result ''Task completed successfully. User replied 'Yes'.'')
                      else Inr (error_result (''User did not reply 'Yes'. Received: '' @ received_message))))))"

text \<open>The body of the \<^verbatim>\<open>try\<close> block (source lines 161 to 185).\<close>

definition inspect_response :: "VerifyTwilioMessageAction \<Rightarrow> bytes \<Rightarrow> exn + ActionResult" where
  "inspect_response params out =
     (case json_loads out of
        Inl e \<Rightarrow> Inl e
      | Inr response_data \<Rightarrow>
          (case dict_get response_data ''messages'' (JList []) of
             Inl e \<Rightarrow> Inl e
           | Inr messages \<Rightarrow>
               (case py_len messages of
                  Inl e \<Rightarrow> Inl e
                | Inr n \<Rightarrow>
                    if n \<ge> 2
                    then (case getitem messages 1 of
                            Inl e \<Rightarrow> Inl e
                          | Inr second_last_message \<Rightarrow> check_message params second_last_message)
                    else Inr (error_result
                           ''Not enough messages found to retrieve the second-to-last one.''))))"

text \<open>The argument vector of the listing curl call (source lines 143 to 149).\<close>

definition verify_command :: "world \<Rightarrow> str list" where
  "verify_command w =
     (let account_sid = getenv w ''TWILIO_ACCOUNT_SID'';
          auth_token = getenv w ''TWILIO_AUTH_TOKEN''
      in [''curl'',
          ''-s'',
          ''-X'', ''GET'',
          ''https://api.twilio.com/2010-04-01/Accounts/'' @ format_str account_sid
             @ ''/Messages.json?PageSize=2&Direction=inbound'',
          ''-u'', format_str account_sid @ '':'' @ format_str auth_token])"

definition verify_twilio_message ::
  "VerifyTwilioMessageAction \<Rightarrow> world \<Rightarrow> (exn + ActionResult) \<times> world" where
  "verify_twilio_message params w =
     (let account_sid = getenv w ''TWILIO_ACCOUNT_SID'';
          auth_token = getenv w ''TWILIO_AUTH_TOKEN''
      in if \<not> py_all [account_sid, auth_token]
         then (Inr (error_result ''Missing Twilio credentials in environment variables''), w)
         else
           (case create_subprocess_exec (verify_command w) w of
              (Inl e, w') \<Rightarrow> (Inl e, w')
            | (Inr p, w') \<Rightarrow>
                if returncode p = 0
                then
                  (case inspect_response params (stdout p) of
                     Inl JSONDecodeError \<Rightarrow>
                       (case decode (stdout p) of
                          Inl e \<Rightarrow> (Inl e, w')
                        | Inr t \<Rightarrow>
                            (Inr (error_result (''Error decoding Twilio message response: '' @ t)), w'))
                   | r \<Rightarrow> (r, w'))
                else
                  (case decode (stderr p) of
                     Inl e \<Rightarrow> (Inl e, w')
                   | Inr t \<Rightarrow>
                       (Inr (error_result (''Error receiving Twilio message. Error: '' @ t)), w'))))"

section \<open>Example worlds\<close>

text \<open>A complete set of the four environment values.\<close>

definition credentials :: "str \<rightharpoonup> str" where
  "credentials =
     [''TWILIO_ACCOUNT_SID'' \<mapsto> ''AC1'', ''TWILIO_AUTH_TOKEN'' \<mapsto> ''secret'',
      ''TWILIO_WHATSAPP_TO'' \<mapsto> ''whatsapp:+15550001'',
      ''TWILIO_WHATSAPP_FROM'' \<mapsto> ''whatsapp:+15550002'']"

text \<open>A fresh world in which every launched command ends the same way.\<close>

definition world_of :: "(str \<rightharpoonup> str) \<Rightarrow> exn + process \<Rightarrow> world" where
  "world_of env outcome = \<lparr>environ = env, run = (\<lambda>cmd. outcome), launched = []\<rparr>"

text \<open>Bytes that are valid UTF-8 but no JSON document, such as a message of curl.\<close>

definition plain_text :: "str \<Rightarrow> bytes" where
  "plain_text t = \<lparr>decode = Inr t, json_loads = Inl JSONDecodeError\<rparr>"

text \<open>
  Bytes that are not valid UTF-8, such as \<^verbatim>\<open>b'\xff'\<close>: both \<^verbatim>\<open>b.decode()\<close> and
  \<^verbatim>\<open>json.loads(b)\<close> raise \<^verbatim>\<open>UnicodeDecodeError\<close>.
\<close>

definition invalid_utf8 :: bytes where
  "invalid_utf8 = \<lparr>decode = Inl UnicodeDecodeError, json_loads = Inl UnicodeDecodeError\<rparr>"

text \<open>No curl executable on the search path.\<close>

definition curl_missing :: "exn + process" where
  "curl_missing = Inl FileNotFoundError"

text \<open>A command that ran to its end with the given exit status and output.\<close>

definition exited :: "int \<Rightarrow> nat option \<Rightarrow> bytes \<Rightarrow> bytes \<Rightarrow> exn + process" where
  "exited code status out err =
     Inr \<lparr>returncode = code, http_status = status, stdout = out, stderr = err\<rparr>"

text \<open>Answers of the provider to the listing call, each with its text and its parsed value.\<close>

definition reply_confirmed :: bytes where
  \<open>reply_confirmed =
     \<lparr>decode = Inr ''{"messages": [{"body": "ok"}, {"body": "  CONFIRMED  "}]}'',
      json_loads = Inr (JDict [(''messages'',
        JList [JDict [(''body'', JStr ''ok'')], JDict [(''body'', JStr ''  CONFIRMED  '')]])])\<rparr>\<close>

definition reply_yes :: bytes where
  \<open>reply_yes =
     \<lparr>decode = Inr ''{"messages": [{"body": "later"}, {"body": "yes"}]}'',
      json_loads = Inr (JDict [(''messages'',
        JList [JDict [(''body'', JStr ''later'')], JDict [(''body'', JStr ''yes'')]])])\<rparr>\<close>

definition reply_single :: bytes where
  \<open>reply_single =
     \<lparr>decode = Inr ''{"messages": [{"body": "yes"}]}'',
      json_loads = Inr (JDict [(''messages'', JList [JDict [(''body'', JStr ''yes'')]])])\<rparr>\<close>

definition reply_unauthorized :: bytes where
  \<open>reply_unauthorized =
     \<lparr>decode = Inr ''{"code": 20003, "message": "Authenticate", "status": 401}'',
      json_loads = Inr (JDict [(''code'', JInt 20003), (''message'', JStr ''Authenticate''),
        (''status'', JInt 401)])\<rparr>\<close>

definition reply_without_body :: bytes where
  \<open>reply_without_body =
     \<lparr>decode = Inr ''{"messages": [{"body": "yes"}, {"from": "whatsapp:+15550001"}]}'',
      json_loads = Inr (JDict [(''messages'',
        JList [JDict [(''body'', JStr ''yes'')], JDict [(''from'', JStr ''whatsapp:+15550001'')]])])\<rparr>\<close>

text \<open>Answers that parse as JSON but are not shaped as a list of message objects.\<close>

definition reply_array :: bytes where
  "reply_array = \<lparr>decode = Inr ''[]'', json_loads = Inr (JList [])\<rparr>"

definition reply_strings :: bytes where
  \<open>reply_strings =
     \<lparr>decode = Inr ''{"messages": ["first", "second"]}'',
      json_loads = Inr (JDict [(''messages'', JList [JStr ''first'', JStr ''second''])])\<rparr>\<close>

section \<open>Which exceptions the built-in operations raise\<close>

lemma dict_get_raises: "dict_get j k d = Inl e \<Longrightarrow> e = AttributeError"
  by (cases j) auto

lemma py_len_raises: "py_len j = Inl e \<Longrightarrow> e = TypeError"
  by (cases j) auto

lemma getitem_raises: "getitem j i = Inl e \<Longrightarrow> e = IndexError \<or> e = KeyError \<or> e = TypeError"
  by (cases j) (auto split: if_splits)

lemma attr_strip_raises: "attr_strip b = Inl e \<Longrightarrow> e = AttributeError"
  by (cases b) auto

lemma dict_get_not_object: "(\<forall>kvs. j \<noteq> JDict kvs) \<Longrightarrow> dict_get j k d = Inl AttributeError"
  by (cases j) auto

lemma check_message_not_object:
  "(\<forall>fields. m \<noteq> JDict fields) \<Longrightarrow> check_message vp m = Inl AttributeError"
  by (simp add: check_message_def dict_get_not_object)

lemma check_message_raises: "check_message params m = Inl e \<Longrightarrow> e = AttributeError"
  by (auto simp: check_message_def Let_def split: sum.splits if_splits
           dest: dict_get_raises attr_strip_raises)

text \<open>Only \<^verbatim>\<open>json.loads\<close> can raise the exception that the \<^verbatim>\<open>except\<close> clause catches.\<close>

lemma inspect_response_json_error:
  "inspect_response params out = Inl JSONDecodeError \<longleftrightarrow> json_loads out = Inl JSONDecodeError"
  by (auto simp: inspect_response_def split: sum.splits if_splits
           dest: dict_get_raises py_len_raises getitem_raises check_message_raises)

section \<open>Normalisation of text\<close>

lemma normalised_examples:
  "lower (strip ''  CONFIRMED  '') = ''confirmed''"
  "lower ''Confirmed'' = ''confirmed''"
  "lower (strip ''yes'') = ''yes''"
  "lower (strip ''yes '') = ''yes''"
  "lower ''yes '' = ''yes ''"
  by code_simp+

lemma lower_strip_empty: "lower (strip '''') = ''''"
  by (simp add: strip_def lower_def)

lemma lower_nonempty: "s \<noteq> '''' \<Longrightarrow> lower s \<noteq> ''''"
  by (simp add: lower_def)

section \<open>The paths through the verifier\<close>

lemma py_all_2: "py_all [a, b] = (truthy a \<and> truthy b)"
  by (simp add: py_all_def)

lemma py_all_4: "py_all [a, b, c, d] = (truthy a \<and> truthy b \<and> truthy c \<and> truthy d)"
  by (simp add: py_all_def)

text \<open>With credentials, a zero exit status and a JSON document the verifier inspects it.\<close>

lemma verify_reaches_response:
  assumes "truthy (environ w ''TWILIO_ACCOUNT_SID'')" "truthy (environ w ''TWILIO_AUTH_TOKEN'')"
    and "run w (verify_command w) = Inr p" "returncode p = 0" "json_loads (stdout p) = Inr d"
  shows "fst (verify_twilio_message params w) = inspect_response params (stdout p)"
proof -
  have "inspect_response params (stdout p) \<noteq> Inl JSONDecodeError"
    using assms(5) by (simp add: inspect_response_json_error)
  then show ?thesis
    using assms(1-4)
    by (auto simp: verify_twilio_message_def getenv_def py_all_2 create_subprocess_exec_def
             split: sum.splits exn.splits)
qed

text \<open>When \<^verbatim>\<open>messages\<close> is a list, its length decides and element 1 is the one checked.\<close>

lemma verify_on_list:
  assumes "truthy (environ w ''TWILIO_ACCOUNT_SID'')" "truthy (environ w ''TWILIO_AUTH_TOKEN'')"
    and "run w (verify_command w) = Inr p" "returncode p = 0" "json_loads (stdout p) = Inr d"
    and "dict_get d ''messages'' (JList []) = Inr (JList ms)"
  shows "fst (verify_twilio_message vp w) =
           (if 2 \<le> length ms then check_message vp (ms ! 1)
            else Inr (error_result ''Not enough messages found to retrieve the second-to-last one.''))"
  using assms(5,6) by (simp add: verify_reaches_response [OF assms(1-5)] inspect_response_def)

text \<open>The check of a record whose body is a string.\<close>

lemma check_message_on_str:
  assumes "dict_get m ''body'' (JStr '''') = Inr (JStr body)"
  shows "check_message vp m =
           (if truthy (expected_message vp)
            then (if lower (strip body) = lower (the (expected_message vp))
                  then Inr (content_result ''Message verified successfully.'')
                  else Inr (error_result ''Received message does not match the expected message.''))
            else (if lower (strip body) = ''yes''
                  then Inr (content_result ''Task completed successfully. User replied 'Yes'.'')
                  else Inr (error_result (''User did not reply 'Yes'. Received: '' @ lower (strip body)))))"
  using assms by (simp add: check_message_def Let_def)

lemma check_message_empty_expected:
  "check_message \<lparr>expected_message = Some ''''\<rparr> m = check_message \<lparr>expected_message = None\<rparr> m"
  by (simp add: check_message_def Let_def split: sum.splits)

lemma inspect_response_empty_expected:
  "inspect_response \<lparr>expected_message = Some ''''\<rparr> out =
     inspect_response \<lparr>expected_message = None\<rparr> out"
  unfolding inspect_response_def check_message_empty_expected by (rule refl)

text \<open>A returned result has one of its two fields set to a non-empty string, the other unset.\<close>

lemma check_message_result:
  "check_message vp m = Inr r \<Longrightarrow>
     truthy (extracted_content r) \<and> error r = None \<or> truthy (error r) \<and> extracted_content r = None"
  by (auto simp: check_message_def Let_def content_result_def error_result_def
           split: sum.splits if_splits)

lemma inspect_response_result:
  "inspect_response vp out = Inr r \<Longrightarrow>
     truthy (extracted_content r) \<and> error r = None \<or> truthy (error r) \<and> extracted_content r = None"
  by (auto simp: inspect_response_def error_result_def
           split: sum.splits if_splits dest: check_message_result)

section \<open>The Messenger\<close>

text \<open>
  C1, as the code has it: the Messenger returns the success result (extracted content
  "Message sent successfully", no error) whenever the four environment values are
  non-empty and the HTTP call completes with a provider-reported success status (a
  status from 200 to 299, curl ending with exit status 0); it returns the success
  result only if the call was made and completed, and every other result it returns
  has an error and no content. On a non-success exit it returns instead the result
  whose error is "Failed to send WhatsApp message: " followed by the raw error text of
  the call, read from its standard error stream, if that stream decodes; otherwise the
  decoding exception leaves the action. Nothing is said about a call that completes
  while the provider reports a failure status.
\<close>

theorem send_twilio_message_outcome:
  "(\<forall>p s. truthy (environ w ''TWILIO_ACCOUNT_SID'') \<and> truthy (environ w ''TWILIO_AUTH_TOKEN'')
          \<and> truthy (environ w ''TWILIO_WHATSAPP_TO'') \<and> truthy (environ w ''TWILIO_WHATSAPP_FROM'')
          \<and> run w (send_command w sp) = Inr p \<and> returncode p = 0
          \<and> http_status p = Some s \<and> 200 \<le> s \<and> s < 300
        \<longrightarrow> fst (send_twilio_message sp w) = Inr (content_result ''Message sent successfully''))
   \<and> (fst (send_twilio_message sp w) = Inr (content_result ''Message sent successfully'')
        \<longrightarrow> truthy (environ w ''TWILIO_ACCOUNT_SID'') \<and> truthy (environ w ''TWILIO_AUTH_TOKEN'')
          \<and> truthy (environ w ''TWILIO_WHATSAPP_TO'') \<and> truthy (environ w ''TWILIO_WHATSAPP_FROM'')
          \<and> (\<exists>p. run w (send_command w sp) = Inr p \<and> returncode p = 0))
   \<and> (\<forall>r. fst (send_twilio_message sp w) = Inr r
            \<and> r \<noteq> content_result ''Message sent successfully''
          \<longrightarrow> extracted_content r = None \<and> error r \<noteq> None)
   \<and> (\<forall>p. truthy (environ w ''TWILIO_ACCOUNT_SID'') \<and> truthy (environ w ''TWILIO_AUTH_TOKEN'')
          \<and> truthy (environ w ''TWILIO_WHATSAPP_TO'') \<and> truthy (environ w ''TWILIO_WHATSAPP_FROM'')
          \<and> run w (send_command w sp) = Inr p \<and> returncode p \<noteq> 0
        \<longrightarrow> (\<forall>t. decode (stderr p) = Inr t \<longrightarrow>
                fst (send_twilio_message sp w) =
                  Inr (error_result (''Failed to send WhatsApp message: '' @ t)))
          \<and> (\<forall>e. decode (stderr p) = Inl e \<longrightarrow> fst (send_twilio_message sp w) = Inl e))"
  by (auto simp: send_twilio_message_def getenv_def py_all_4 create_subprocess_exec_def
        content_result_def error_result_def
        split: sum.splits)

text \<open>
  The provider accepts the message with status 201; and curl cannot resolve the host:
  exit status 6 and a message on standard error.
\<close>

theorem send_twilio_message_outcome_witness:
  "http_status \<lparr>returncode = 0, http_status = Some 201, stdout = plain_text '''',
                 stderr = plain_text ''''\<rparr> = Some 201
   \<and> (200::nat) \<le> 201 \<and> (201::nat) < 300
   \<and> fst (send_twilio_message \<lparr>message = ''hello''\<rparr>
          (world_of credentials (exited 0 (Some 201) (plain_text '''') (plain_text ''''))))
     = Inr (content_result ''Message sent successfully'')
   \<and> fst (send_twilio_message \<lparr>message = ''hello''\<rparr>
          (world_of credentials
             (exited 6 None (plain_text '''') (plain_text ''curl: (6) Could not resolve host: api.twilio.com''))))
     = Inr (error_result
         ''Failed to send WhatsApp message: curl: (6) Could not resolve host: api.twilio.com'')"
  using send_twilio_message_outcome
          [of "world_of credentials (exited 0 (Some 201) (plain_text '''') (plain_text ''''))"
              "\<lparr>message = ''hello''\<rparr>",
           THEN conjunct1,
           THEN spec [of _ "\<lparr>returncode = 0, http_status = Some 201, stdout = plain_text '''',
              stderr = plain_text ''''\<rparr>"],
           THEN spec [of _ 201]]
        send_twilio_message_outcome
          [of "world_of credentials
                 (exited 6 None (plain_text '''') (plain_text ''curl: (6) Could not resolve host: api.twilio.com''))"
              "\<lparr>message = ''hello''\<rparr>",
           THEN conjunct2, THEN conjunct2, THEN conjunct2,
           THEN spec [of _ "\<lparr>returncode = 6, http_status = None, stdout = plain_text '''',
              stderr = plain_text ''curl: (6) Could not resolve host: api.twilio.com''\<rparr>"]]
  by (simp add: world_of_def credentials_def exited_def plain_text_def)

text \<open>
  C1 as stated fails: with exit status 6 and a standard error stream that is not valid
  UTF-8, \<^verbatim>\<open>stderr.decode()\<close> raises and no result is returned.
\<close>

theorem send_twilio_message_undecodable_stderr:
  "fst (send_twilio_message \<lparr>message = ''hello''\<rparr>
          (world_of credentials (exited 6 None (plain_text '''') invalid_utf8)))
     = Inl UnicodeDecodeError"
  by (simp add: send_twilio_message_def getenv_def py_all_4 create_subprocess_exec_def
        world_of_def credentials_def exited_def invalid_utf8_def)

text \<open>
  A defect of the Messenger, outside the statement above: the provider rejects the
  request with status 401 and an error document; curl, started without \<^verbatim>\<open>--fail\<close>,
  still ends with exit status 0, the only thing line 124 tests, and the Messenger
  reports the message as sent.
\<close>

lemma send_twilio_message_provider_rejection:
  "fst (send_twilio_message \<lparr>message = ''hello''\<rparr>
          (world_of credentials (exited 0 (Some 401) reply_unauthorized (plain_text ''''))))
     = Inr (content_result ''Message sent successfully'')"
  by (simp add: send_twilio_message_def getenv_def py_all_4 create_subprocess_exec_def
        world_of_def credentials_def exited_def)

text \<open>
  C6: whenever at least one of the four environment values (account identifier, auth
  token, destination address, origin address) is missing, the Messenger returns the
  configuration error result and leaves the world as it was: no command is launched, so
  no network call is made.
\<close>

theorem send_twilio_message_missing_credentials:
  assumes "k \<in> {''TWILIO_ACCOUNT_SID'', ''TWILIO_AUTH_TOKEN'', ''TWILIO_WHATSAPP_TO'',
                 ''TWILIO_WHATSAPP_FROM''}"
    and "environ w k = None"
  shows "send_twilio_message params w =
           (Inr (error_result ''Missing Twilio credentials in environment variables''), w)
         \<and> launched (snd (send_twilio_message params w)) = launched w"
  using assms by (auto simp: send_twilio_message_def getenv_def py_all_4)

theorem send_twilio_message_missing_credentials_witness:
  "''TWILIO_AUTH_TOKEN'' \<in> {''TWILIO_ACCOUNT_SID'', ''TWILIO_AUTH_TOKEN'', ''TWILIO_WHATSAPP_TO'',
                 ''TWILIO_WHATSAPP_FROM''}
   \<and> environ (world_of (credentials(''TWILIO_AUTH_TOKEN'' := None)) curl_missing)
         ''TWILIO_AUTH_TOKEN'' = None
   \<and> send_twilio_message \<lparr>message = ''hello''\<rparr>
         (world_of (credentials(''TWILIO_AUTH_TOKEN'' := None)) curl_missing) =
       (Inr (error_result ''Missing Twilio credentials in environment variables''),
        world_of (credentials(''TWILIO_AUTH_TOKEN'' := None)) curl_missing)
   \<and> launched (snd (send_twilio_message \<lparr>message = ''hello''\<rparr>
         (world_of (credentials(''TWILIO_AUTH_TOKEN'' := None)) curl_missing))) = []"
  using send_twilio_message_missing_credentials
          [of "''TWILIO_AUTH_TOKEN''" "world_of (credentials(''TWILIO_AUTH_TOKEN'' := None)) curl_missing"
              "\<lparr>message = ''hello''\<rparr>"]
  by (simp add: world_of_def)

text \<open>
  C8: an environment value that is present but empty counts as missing, for the
  Messenger (any of its four values) and for the MessageVerifier (either of its two):
  the action returns the configuration error result, the same outcome as with the
  value unset, and launches no command.
\<close>

theorem empty_value_treated_as_missing:
  assumes "environ w k = Some ''''"
  shows "(k \<in> {''TWILIO_ACCOUNT_SID'', ''TWILIO_AUTH_TOKEN'', ''TWILIO_WHATSAPP_TO'',
               ''TWILIO_WHATSAPP_FROM''} \<longrightarrow>
            send_twilio_message sp w =
              (Inr (error_result ''Missing Twilio credentials in environment variables''), w)
            \<and> fst (send_twilio_message sp w) =
                fst (send_twilio_message sp (w\<lparr>environ := (environ w)(k := None)\<rparr>))
            \<and> launched (snd (send_twilio_message sp w)) = launched w)
       \<and> (k \<in> {''TWILIO_ACCOUNT_SID'', ''TWILIO_AUTH_TOKEN''} \<longrightarrow>
            verify_twilio_message vp w =
              (Inr (error_result ''Missing Twilio credentials in environment variables''), w)
            \<and> fst (verify_twilio_message vp w) =
                fst (verify_twilio_message vp (w\<lparr>environ := (environ w)(k := None)\<rparr>))
            \<and> launched (snd (verify_twilio_message vp w)) = launched w)"
  using assms
  by (auto simp: send_twilio_message_def verify_twilio_message_def getenv_def py_all_4 py_all_2)

theorem empty_value_treated_as_missing_witness:
  "environ (world_of (credentials(''TWILIO_ACCOUNT_SID'' \<mapsto> '''')) curl_missing)
       ''TWILIO_ACCOUNT_SID'' = Some ''''
   \<and> send_twilio_message \<lparr>message = ''hello''\<rparr>
         (world_of (credentials(''TWILIO_ACCOUNT_SID'' \<mapsto> '''')) curl_missing) =
       (Inr (error_result ''Missing Twilio credentials in environment variables''),
        world_of (credentials(''TWILIO_ACCOUNT_SID'' \<mapsto> '''')) curl_missing)
   \<and> verify_twilio_message \<lparr>expected_message = None\<rparr>
         (world_of (credentials(''TWILIO_ACCOUNT_SID'' \<mapsto> '''')) curl_missing) =
       (Inr (error_result ''Missing Twilio credentials in environment variables''),
        world_of (credentials(''TWILIO_ACCOUNT_SID'' \<mapsto> '''')) curl_missing)"
  using empty_value_treated_as_missing
          [of "world_of (credentials(''TWILIO_ACCOUNT_SID'' \<mapsto> '''')) curl_missing"
              "''TWILIO_ACCOUNT_SID''" "\<lparr>message = ''hello''\<rparr>" "\<lparr>expected_message = None\<rparr>"]
  by (simp add: world_of_def)

section \<open>The "Done" action\<close>

text \<open>
  C4, as the code has it: for every text, whenever the embedded send returns a result,
  be it the success or an error result, the "Done" action drops it and returns the
  result with the is-done flag set, the content "Task completed: " followed by the text
  and no error; an exception that leaves the send leaves the "Done" action as well. The
  world after the action is the world after the send.
\<close>

theorem done_action_outcome:
  "(\<forall>r. fst (send_twilio_message \<lparr>message = done_text dp\<rparr> w) = Inr r \<longrightarrow>
       fst (done_action dp w) =
         Inr \<lparr>is_done = True, extracted_content = Some (''Task completed: '' @ done_text dp),
              error = None\<rparr>)
   \<and> (\<forall>e. fst (send_twilio_message \<lparr>message = done_text dp\<rparr> w) = Inl e \<longrightarrow>
          fst (done_action dp w) = Inl e)
   \<and> snd (done_action dp w) = snd (send_twilio_message \<lparr>message = done_text dp\<rparr> w)"
  by (auto simp: done_action_def split: prod.splits sum.splits)

text \<open>The send fails with an error result and the task is reported as completed.\<close>

theorem done_action_outcome_witness:
  "fst (send_twilio_message \<lparr>message = done_text \<lparr>done_text = ''booked''\<rparr>\<rparr>
          (world_of credentials
             (exited 6 None (plain_text '''') (plain_text ''curl: (6) Could not resolve host: api.twilio.com''))))
     = Inr (error_result
         ''Failed to send WhatsApp message: curl: (6) Could not resolve host: api.twilio.com'')
   \<and> fst (done_action \<lparr>done_text = ''booked''\<rparr>
          (world_of credentials
             (exited 6 None (plain_text '''') (plain_text ''curl: (6) Could not resolve host: api.twilio.com''))))
     = Inr \<lparr>is_done = True, extracted_content = Some ''Task completed: booked'', error = None\<rparr>"
proof -
  let ?w = "world_of credentials
             (exited 6 None (plain_text '''') (plain_text ''curl: (6) Could not resolve host: api.twilio.com''))"
  have s: "fst (send_twilio_message \<lparr>message = done_text \<lparr>done_text = ''booked''\<rparr>\<rparr> ?w)
     = Inr (error_result
         ''Failed to send WhatsApp message: curl: (6) Could not resolve host: api.twilio.com'')"
    by (simp add: send_twilio_message_def getenv_def py_all_4 create_subprocess_exec_def
          world_of_def credentials_def exited_def plain_text_def)
  from done_action_outcome [of "\<lparr>done_text = ''booked''\<rparr>" ?w, THEN conjunct1, rule_format, OF s] s
  show ?thesis by simp
qed

text \<open>
  C4 as stated fails: with the credentials set and no curl executable to start, the
  send raises, and so does the "Done" action instead of reporting completion.
\<close>

theorem done_action_curl_missing:
  "fst (done_action \<lparr>done_text = ''booked''\<rparr> (world_of credentials curl_missing))
     = Inl FileNotFoundError"
  by (simp add: done_action_def send_twilio_message_def getenv_def py_all_4
        create_subprocess_exec_def world_of_def credentials_def curl_missing_def)

section \<open>The MessageVerifier\<close>

text \<open>
  C2, as the code has it: for every selected record whose body is a string (an absent
  body counts as the empty string) and every non-empty expected message, the verifier
  compares the body, trimmed and then lowercased, with the expected message lowercased
  but not trimmed; it returns "Message verified successfully." exactly when the two are
  equal and the mismatch error otherwise.
\<close>

theorem verify_twilio_message_comparison:
  assumes "truthy (environ w ''TWILIO_ACCOUNT_SID'')" "truthy (environ w ''TWILIO_AUTH_TOKEN'')"
    and "run w (verify_command w) = Inr p" "returncode p = 0" "json_loads (stdout p) = Inr d"
    and "dict_get d ''messages'' (JList []) = Inr (JList ms)" "2 \<le> length ms"
    and "dict_get (ms ! 1) ''body'' (JStr '''') = Inr (JStr body)"
    and "expected \<noteq> ''''"
  shows "fst (verify_twilio_message \<lparr>expected_message = Some expected\<rparr> w) =
           (if lower (strip body) = lower expected
            then Inr (content_result ''Message verified successfully.'')
            else Inr (error_result ''Received message does not match the expected message.''))"
  using verify_on_list [OF assms(1-6), of "\<lparr>expected_message = Some expected\<rparr>"]
    check_message_on_str [OF assms(8), of "\<lparr>expected_message = Some expected\<rparr>"] assms(7,9)
  by simp

text \<open>
  The example of C2: the expected message "Confirmed" and the body "  CONFIRMED  " at
  position 1 verify.
\<close>

theorem verify_twilio_message_comparison_witness:
  "dict_get (JDict [(''body'', JStr ''  CONFIRMED  '')]) ''body'' (JStr '''') = Inr (JStr ''  CONFIRMED  '')
   \<and> fst (verify_twilio_message \<lparr>expected_message = Some ''Confirmed''\<rparr>
            (world_of credentials (exited 0 (Some 200) reply_confirmed (plain_text ''''))))
       = Inr (content_result ''Message verified successfully.'')"
  using verify_twilio_message_comparison
    [where w = "world_of credentials (exited 0 (Some 200) reply_confirmed (plain_text ''''))"
       and p = "\<lparr>returncode = 0, http_status = Some 200, stdout = reply_confirmed, stderr = plain_text ''''\<rparr>"
       and d = "JDict [(''messages'',
                  JList [JDict [(''body'', JStr ''ok'')], JDict [(''body'', JStr ''  CONFIRMED  '')]])]"
       and ms = "[JDict [(''body'', JStr ''ok'')], JDict [(''body'', JStr ''  CONFIRMED  '')]]"
       and body = "''  CONFIRMED  ''" and expected = "''Confirmed''"]
  by (simp add: world_of_def credentials_def exited_def reply_confirmed_def normalised_examples)

text \<open>
  C2 as stated fails: the expected message "yes " (with a trailing space) and the body
  "yes" are equal once both are trimmed and lowercased, yet the verifier reports a
  mismatch, because it does not trim the expected message.
\<close>

theorem verify_twilio_message_untrimmed_expected:
  "lower (strip ''yes'') = lower (strip ''yes '')
   \<and> fst (verify_twilio_message \<lparr>expected_message = Some ''yes ''\<rparr>
            (world_of credentials (exited 0 (Some 200) reply_yes (plain_text ''''))))
       = Inr (error_result ''Received message does not match the expected message.'')"
  by (simp add: verify_twilio_message_def inspect_response_def check_message_def getenv_def
        py_all_2 create_subprocess_exec_def world_of_def credentials_def exited_def reply_yes_def
        normalised_examples)

text \<open>
  C3: for every provider response whose \<^verbatim>\<open>messages\<close> entry is a list (an absent entry
  counts as the empty list): with fewer than 2 records the verifier returns the error
  "Not enough messages found to retrieve the second-to-last one.", whatever the
  expected message is; with 2 or more records its outcome is the check of the record
  at position 1, the second-most-recent one, and of no other record.
\<close>

theorem verify_twilio_message_selection:
  assumes "truthy (environ w ''TWILIO_ACCOUNT_SID'')" "truthy (environ w ''TWILIO_AUTH_TOKEN'')"
    and "run w (verify_command w) = Inr p" "returncode p = 0" "json_loads (stdout p) = Inr d"
    and "dict_get d ''messages'' (JList []) = Inr (JList ms)"
  shows "(length ms < 2 \<longrightarrow>
            (\<forall>vp. fst (verify_twilio_message vp w) =
               Inr (error_result ''Not enough messages found to retrieve the second-to-last one.'')))
       \<and> (2 \<le> length ms \<longrightarrow>
            (\<forall>vp. fst (verify_twilio_message vp w) = check_message vp (ms ! 1)))"
  using verify_on_list [OF assms] by simp

text \<open>
  One record "yes" is not enough, with or without an expected message; of the two
  records "later" and "yes" the one at position 1 decides.
\<close>

theorem verify_twilio_message_selection_witness:
  "length [JDict [(''body'', JStr ''yes'')]] < 2
   \<and> fst (verify_twilio_message \<lparr>expected_message = Some ''yes''\<rparr>
            (world_of credentials (exited 0 (Some 200) reply_single (plain_text ''''))))
       = Inr (error_result ''Not enough messages found to retrieve the second-to-last one.'')
   \<and> fst (verify_twilio_message \<lparr>expected_message = None\<rparr>
            (world_of credentials (exited 0 (Some 200) reply_single (plain_text ''''))))
       = Inr (error_result ''Not enough messages found to retrieve the second-to-last one.'')
   \<and> 2 \<le> length [JDict [(''body'', JStr ''later'')], JDict [(''body'', JStr ''yes'')]]
   \<and> fst (verify_twilio_message \<lparr>expected_message = None\<rparr>
            (world_of credentials (exited 0 (Some 200) reply_yes (plain_text ''''))))
       = check_message \<lparr>expected_message = None\<rparr> (JDict [(''body'', JStr ''yes'')])
   \<and> check_message \<lparr>expected_message = None\<rparr> (JDict [(''body'', JStr ''yes'')])
       = Inr (content_result ''Task completed successfully. User replied 'Yes'.'')"
  using verify_twilio_message_selection
    [where w = "world_of credentials (exited 0 (Some 200) reply_single (plain_text ''''))"
       and p = "\<lparr>returncode = 0, http_status = Some 200, stdout = reply_single, stderr = plain_text ''''\<rparr>"
       and d = "JDict [(''messages'', JList [JDict [(''body'', JStr ''yes'')]])]"
       and ms = "[JDict [(''body'', JStr ''yes'')]]"]
    verify_twilio_message_selection
    [where w = "world_of credentials (exited 0 (Some 200) reply_yes (plain_text ''''))"
       and p = "\<lparr>returncode = 0, http_status = Some 200, stdout = reply_yes, stderr = plain_text ''''\<rparr>"
       and d = "JDict [(''messages'',
                  JList [JDict [(''body'', JStr ''later'')], JDict [(''body'', JStr ''yes'')]])]"
       and ms = "[JDict [(''body'', JStr ''later'')], JDict [(''body'', JStr ''yes'')]]"]
  by (simp add: world_of_def credentials_def exited_def reply_single_def reply_yes_def
        check_message_def normalised_examples)

text \<open>
  C7, as the code has it: for every provider response on which \<^verbatim>\<open>json.loads\<close> raises
  \<^verbatim>\<open>JSONDecodeError\<close>, the verifier returns the error "Error decoding Twilio message
  response: " followed by the text of the response if the response decodes, and
  otherwise the decoding exception leaves the action; any other exception raised by
  \<^verbatim>\<open>json.loads\<close> leaves the action as well.
\<close>

theorem verify_twilio_message_unparseable:
  assumes "truthy (environ w ''TWILIO_ACCOUNT_SID'')" "truthy (environ w ''TWILIO_AUTH_TOKEN'')"
    and "run w (verify_command w) = Inr p" "returncode p = 0"
  shows "(json_loads (stdout p) = Inl JSONDecodeError \<longrightarrow>
            (\<forall>t. decode (stdout p) = Inr t \<longrightarrow>
               fst (verify_twilio_message vp w) =
                 Inr (error_result (''Error decoding Twilio message response: '' @ t)))
          \<and> (\<forall>e. decode (stdout p) = Inl e \<longrightarrow> fst (verify_twilio_message vp w) = Inl e))
       \<and> (\<forall>e. json_loads (stdout p) = Inl e \<and> e \<noteq> JSONDecodeError \<longrightarrow>
            fst (verify_twilio_message vp w) = Inl e)"
  using assms
  by (auto simp: verify_twilio_message_def inspect_response_def getenv_def py_all_2
        create_subprocess_exec_def split: sum.splits exn.splits)

theorem verify_twilio_message_unparseable_witness:
  "json_loads (plain_text ''<html>Service Unavailable</html>'') = Inl JSONDecodeError
   \<and> fst (verify_twilio_message \<lparr>expected_message = None\<rparr>
          (world_of credentials
             (exited 0 (Some 503) (plain_text ''<html>Service Unavailable</html>'') (plain_text ''''))))
     = Inr (error_result
         ''Error decoding Twilio message response: <html>Service Unavailable</html>'')"
  using verify_twilio_message_unparseable
          [of "world_of credentials
                 (exited 0 (Some 503) (plain_text ''<html>Service Unavailable</html>'') (plain_text ''''))"
              "\<lparr>returncode = 0, http_status = Some 503, stdout = plain_text ''<html>Service Unavailable</html>'',
                stderr = plain_text ''''\<rparr>"
              "\<lparr>expected_message = None\<rparr>"]
  by (simp add: world_of_def credentials_def exited_def plain_text_def)

text \<open>
  C7 as stated fails: a response that is not valid UTF-8 is no JSON document, but
  \<^verbatim>\<open>json.loads\<close> raises \<^verbatim>\<open>UnicodeDecodeError\<close> on it, which the \<^verbatim>\<open>except\<close> clause
  does not catch, so no result is returned.
\<close>

theorem verify_twilio_message_undecodable_stdout:
  "fst (verify_twilio_message \<lparr>expected_message = None\<rparr>
          (world_of credentials (exited 0 (Some 200) invalid_utf8 (plain_text ''''))))
     = Inl UnicodeDecodeError"
  by (simp add: verify_twilio_message_def inspect_response_def getenv_def py_all_2
        create_subprocess_exec_def world_of_def credentials_def exited_def invalid_utf8_def)

text \<open>
  C9: called with the empty string as expected message, the verifier behaves in every
  world as if no expected message had been supplied; it does not compare the selected
  body with the empty string but returns the "User replied 'Yes'" success exactly when
  the body, trimmed and lowercased, equals "yes", and the "did not reply 'Yes'" error
  otherwise.
\<close>

theorem verify_twilio_message_empty_expected:
  "verify_twilio_message \<lparr>expected_message = Some ''''\<rparr> w =
     verify_twilio_message \<lparr>expected_message = None\<rparr> w
   \<and> (truthy (environ w ''TWILIO_ACCOUNT_SID'') \<and> truthy (environ w ''TWILIO_AUTH_TOKEN'')
      \<and> run w (verify_command w) = Inr p \<and> returncode p = 0 \<and> json_loads (stdout p) = Inr d
      \<and> dict_get d ''messages'' (JList []) = Inr (JList ms) \<and> 2 \<le> length ms
      \<and> dict_get (ms ! 1) ''body'' (JStr '''') = Inr (JStr body)
      \<longrightarrow> fst (verify_twilio_message \<lparr>expected_message = Some ''''\<rparr> w) =
            (if lower (strip body) = ''yes''
             then Inr (content_result ''Task completed successfully. User replied 'Yes'.'')
             else Inr (error_result (''User did not reply 'Yes'. Received: '' @ lower (strip body)))))"
proof (intro conjI impI)
  show "verify_twilio_message \<lparr>expected_message = Some ''''\<rparr> w =
     verify_twilio_message \<lparr>expected_message = None\<rparr> w"
    unfolding verify_twilio_message_def inspect_response_empty_expected by (rule refl)
next
  assume a: "truthy (environ w ''TWILIO_ACCOUNT_SID'') \<and> truthy (environ w ''TWILIO_AUTH_TOKEN'')
      \<and> run w (verify_command w) = Inr p \<and> returncode p = 0 \<and> json_loads (stdout p) = Inr d
      \<and> dict_get d ''messages'' (JList []) = Inr (JList ms) \<and> 2 \<le> length ms
      \<and> dict_get (ms ! 1) ''body'' (JStr '''') = Inr (JStr body)"
  then show "fst (verify_twilio_message \<lparr>expected_message = Some ''''\<rparr> w) =
            (if lower (strip body) = ''yes''
             then Inr (content_result ''Task completed successfully. User replied 'Yes'.'')
             else Inr (error_result (''User did not reply 'Yes'. Received: '' @ lower (strip body))))"
    using verify_on_list [of w p d ms "\<lparr>expected_message = Some ''''\<rparr>"]
      check_message_on_str [of "ms ! 1" body "\<lparr>expected_message = Some ''''\<rparr>"]
    by simp
qed

theorem verify_twilio_message_empty_expected_witness:
  "fst (verify_twilio_message \<lparr>expected_message = Some ''''\<rparr>
            (world_of credentials (exited 0 (Some 200) reply_yes (plain_text ''''))))
       = Inr (content_result ''Task completed successfully. User replied 'Yes'.'')"
  using verify_twilio_message_empty_expected
    [where w = "world_of credentials (exited 0 (Some 200) reply_yes (plain_text ''''))"
       and p = "\<lparr>returncode = 0, http_status = Some 200, stdout = reply_yes, stderr = plain_text ''''\<rparr>"
       and d = "JDict [(''messages'',
                  JList [JDict [(''body'', JStr ''later'')], JDict [(''body'', JStr ''yes'')]])]"
       and ms = "[JDict [(''body'', JStr ''later'')], JDict [(''body'', JStr ''yes'')]]"
       and body = "''yes''", THEN conjunct2]
  by (simp add: world_of_def credentials_def exited_def reply_yes_def normalised_examples)

text \<open>
  C10, as the code has it: when the provider response parses as a JSON object without
  a \<^verbatim>\<open>messages\<close> key, the verifier returns the "Not enough messages" error, not a
  parse error; a response that parses as JSON but is no object raises
  \<^verbatim>\<open>AttributeError\<close>. When the record at position 1 is an object without a
  \<^verbatim>\<open>body\<close> key, the outcome is the one for the empty body: no exception, the mismatch
  error against a non-empty expected message, and otherwise the "did not reply 'Yes'"
  error with an empty received text; a record at position 1 that is no object raises
  \<^verbatim>\<open>AttributeError\<close>.
\<close>

theorem verify_twilio_message_missing_keys:
  assumes "truthy (environ w ''TWILIO_ACCOUNT_SID'')" "truthy (environ w ''TWILIO_AUTH_TOKEN'')"
    and "run w (verify_command w) = Inr p" "returncode p = 0"
    and "json_loads (stdout p) = Inr d"
  shows "(\<forall>doc. d = JDict doc \<and> map_of doc ''messages'' = None \<longrightarrow>
            fst (verify_twilio_message vp w) =
              Inr (error_result ''Not enough messages found to retrieve the second-to-last one.''))
       \<and> ((\<forall>doc. d \<noteq> JDict doc) \<longrightarrow> fst (verify_twilio_message vp w) = Inl AttributeError)
       \<and> (\<forall>doc ms fields. d = JDict doc \<and> map_of doc ''messages'' = Some (JList ms)
              \<and> 2 \<le> length ms \<and> ms ! 1 = JDict fields \<and> map_of fields ''body'' = None \<longrightarrow>
            fst (verify_twilio_message vp w) =
              check_message vp (JDict ((''body'', JStr '''') # fields))
            \<and> fst (verify_twilio_message vp w) =
              (if truthy (expected_message vp)
               then Inr (error_result ''Received message does not match the expected message.'')
               else Inr (error_result ''User did not reply 'Yes'. Received: '')))
       \<and> (\<forall>doc ms. d = JDict doc \<and> map_of doc ''messages'' = Some (JList ms)
              \<and> 2 \<le> length ms \<and> (\<forall>fields. ms ! 1 \<noteq> JDict fields) \<longrightarrow>
            fst (verify_twilio_message vp w) = Inl AttributeError)"
proof (intro conjI allI impI)
  fix doc
  assume "d = JDict doc \<and> map_of doc ''messages'' = None"
  then have "dict_get d ''messages'' (JList []) = Inr (JList [])" by simp
  from verify_on_list [OF assms this, of vp]
  show "fst (verify_twilio_message vp w) =
              Inr (error_result ''Not enough messages found to retrieve the second-to-last one.'')"
    by simp
next
  assume "\<forall>doc. d \<noteq> JDict doc"
  then have "dict_get d ''messages'' (JList []) = Inl AttributeError"
    by (rule dict_get_not_object)
  with assms(5) have "inspect_response vp (stdout p) = Inl AttributeError"
    by (simp add: inspect_response_def)
  then show "fst (verify_twilio_message vp w) = Inl AttributeError"
    by (simp add: verify_reaches_response [OF assms])
next
  fix doc ms
  assume a: "d = JDict doc \<and> map_of doc ''messages'' = Some (JList ms)
              \<and> 2 \<le> length ms \<and> (\<forall>fields. ms ! 1 \<noteq> JDict fields)"
  then have m: "dict_get d ''messages'' (JList []) = Inr (JList ms)" by simp
  from a have "check_message vp (ms ! 1) = Inl AttributeError"
    by (intro check_message_not_object) simp
  then show "fst (verify_twilio_message vp w) = Inl AttributeError"
    using verify_on_list [OF assms m, of vp] a by simp
next
  fix doc ms fields
  assume a: "d = JDict doc \<and> map_of doc ''messages'' = Some (JList ms) \<and> 2 \<le> length ms
              \<and> ms ! 1 = JDict fields \<and> map_of fields ''body'' = None"
  then have m: "dict_get d ''messages'' (JList []) = Inr (JList ms)" by simp
  from a have b: "dict_get (ms ! 1) ''body'' (JStr '''') = Inr (JStr '''')" by simp
  have b': "dict_get (JDict ((''body'', JStr '''') # fields)) ''body'' (JStr '''') = Inr (JStr '''')"
    by simp
  have sel: "fst (verify_twilio_message vp w) = check_message vp (ms ! 1)"
    using verify_on_list [OF assms m, of vp] a by simp
  show "fst (verify_twilio_message vp w) = check_message vp (JDict ((''body'', JStr '''') # fields))"
    unfolding sel check_message_on_str [OF b] check_message_on_str [OF b'] by (rule refl)
  show "fst (verify_twilio_message vp w) =
              (if truthy (expected_message vp)
               then Inr (error_result ''Received message does not match the expected message.'')
               else Inr (error_result ''User did not reply 'Yes'. Received: ''))"
  proof (cases "truthy (expected_message vp)")
    case True
    then obtain e where e: "expected_message vp = Some e" "e \<noteq> ''''"
      by (cases "expected_message vp") auto
    from lower_nonempty [OF e(2)] have "lower (strip '''') \<noteq> lower e"
      by (simp add: lower_strip_empty)
    with True e show ?thesis unfolding sel check_message_on_str [OF b] by simp
  next
    case False
    then show ?thesis unfolding sel check_message_on_str [OF b] by (simp add: lower_strip_empty)
  qed
qed

text \<open>An authentication failure answered with an error document, and a record without body.\<close>

theorem verify_twilio_message_missing_keys_witness:
  "map_of [(''code'', JInt 20003), (''message'', JStr ''Authenticate''), (''status'', JInt 401)]
       ''messages'' = None
   \<and> fst (verify_twilio_message \<lparr>expected_message = None\<rparr>
            (world_of credentials (exited 0 (Some 401) reply_unauthorized (plain_text ''''))))
       = Inr (error_result ''Not enough messages found to retrieve the second-to-last one.'')
   \<and> map_of [(''from'', JStr ''whatsapp:+15550001'')] ''body'' = None
   \<and> fst (verify_twilio_message \<lparr>expected_message = None\<rparr>
            (world_of credentials (exited 0 (Some 200) reply_without_body (plain_text ''''))))
       = Inr (error_result ''User did not reply 'Yes'. Received: '')"
  using verify_twilio_message_missing_keys
    [where w = "world_of credentials (exited 0 (Some 401) reply_unauthorized (plain_text ''''))"
       and p = "\<lparr>returncode = 0, http_status = Some 401, stdout = reply_unauthorized, stderr = plain_text ''''\<rparr>"
       and d = "JDict [(''code'', JInt 20003), (''message'', JStr ''Authenticate''), (''status'', JInt 401)]"
       and vp = "\<lparr>expected_message = None\<rparr>", THEN conjunct1,
     THEN spec [of _ "[(''code'', JInt 20003), (''message'', JStr ''Authenticate''), (''status'', JInt 401)]"]]
    verify_twilio_message_missing_keys
    [where w = "world_of credentials (exited 0 (Some 200) reply_without_body (plain_text ''''))"
       and p = "\<lparr>returncode = 0, http_status = Some 200, stdout = reply_without_body, stderr = plain_text ''''\<rparr>"
       and d = "JDict [(''messages'',
                  JList [JDict [(''body'', JStr ''yes'')], JDict [(''from'', JStr ''whatsapp:+15550001'')]])]"
       and vp = "\<lparr>expected_message = None\<rparr>", THEN conjunct2, THEN conjunct2, THEN conjunct1,
     THEN spec [of _ "[(''messages'',
                  JList [JDict [(''body'', JStr ''yes'')], JDict [(''from'', JStr ''whatsapp:+15550001'')]])]"],
     THEN spec [of _ "[JDict [(''body'', JStr ''yes'')], JDict [(''from'', JStr ''whatsapp:+15550001'')]]"],
     THEN spec [of _ "[(''from'', JStr ''whatsapp:+15550001'')]"]]
  by (simp add: world_of_def credentials_def exited_def reply_unauthorized_def reply_without_body_def
        check_message_def lower_strip_empty)

text \<open>
  C10 as stated fails: the response \<^verbatim>\<open>[]\<close> parses as JSON and contains no
  \<^verbatim>\<open>messages\<close> key, and in \<^verbatim>\<open>{"messages": ["first", "second"]}\<close> the record at
  position 1 has no \<^verbatim>\<open>body\<close> key; on both the verifier raises \<^verbatim>\<open>AttributeError\<close>
  (lines 162 and 166) instead of returning the not-enough-messages error or
  comparing with the empty string.
\<close>

theorem verify_twilio_message_not_an_object:
  "fst (verify_twilio_message \<lparr>expected_message = None\<rparr>
          (world_of credentials (exited 0 (Some 200) reply_array (plain_text ''''))))
     = Inl AttributeError
   \<and> fst (verify_twilio_message \<lparr>expected_message = None\<rparr>
          (world_of credentials (exited 0 (Some 200) reply_strings (plain_text ''''))))
     = Inl AttributeError"
  by (simp add: verify_twilio_message_def inspect_response_def check_message_def getenv_def
        py_all_2 create_subprocess_exec_def world_of_def credentials_def exited_def
        reply_array_def reply_strings_def)

section \<open>The result object\<close>

text \<open>
  C5: every result that the Messenger or the MessageVerifier returns has exactly one of
  the content and error fields populated (set to a non-empty string) and the other one
  unset; never both.
\<close>

theorem result_has_exactly_one_field:
  "(\<forall>r. fst (send_twilio_message sp w) = Inr r \<longrightarrow>
        truthy (extracted_content r) \<and> error r = None
      \<or> truthy (error r) \<and> extracted_content r = None)
   \<and> (\<forall>r. fst (verify_twilio_message vp w) = Inr r \<longrightarrow>
        truthy (extracted_content r) \<and> error r = None
      \<or> truthy (error r) \<and> extracted_content r = None)"
proof (intro conjI allI impI)
  fix r assume "fst (send_twilio_message sp w) = Inr r"
  then show "truthy (extracted_content r) \<and> error r = None
      \<or> truthy (error r) \<and> extracted_content r = None"
    by (auto simp: send_twilio_message_def create_subprocess_exec_def content_result_def
          error_result_def split: if_splits sum.splits)
next
  fix r assume "fst (verify_twilio_message vp w) = Inr r"
  then show "truthy (extracted_content r) \<and> error r = None
      \<or> truthy (error r) \<and> extracted_content r = None"
    by (auto simp: verify_twilio_message_def create_subprocess_exec_def error_result_def
          split: if_splits sum.splits exn.splits dest: inspect_response_result)
qed

theorem result_has_exactly_one_field_witness:
  "fst (send_twilio_message \<lparr>message = ''hello''\<rparr>
          (world_of credentials (exited 0 (Some 201) (plain_text '''') (plain_text ''''))))
     = Inr (content_result ''Message sent successfully'')
   \<and> fst (verify_twilio_message \<lparr>expected_message = None\<rparr>
          (world_of credentials (exited 0 (Some 200) reply_single (plain_text ''''))))
     = Inr (error_result ''Not enough messages found to retrieve the second-to-last one.'')
   \<and> (truthy (extracted_content (content_result ''Message sent successfully''))
        \<and> error (content_result ''Message sent successfully'') = None
      \<or> truthy (error (content_result ''Message sent successfully''))
        \<and> extracted_content (content_result ''Message sent successfully'') = None)
   \<and> (truthy (extracted_content
          (error_result ''Not enough messages found to retrieve the second-to-last one.''))
        \<and> error (error_result ''Not enough messages found to retrieve the second-to-last one.'') = None
      \<or> truthy (error (error_result ''Not enough messages found to retrieve the second-to-last one.''))
        \<and> extracted_content
            (error_result ''Not enough messages found to retrieve the second-to-last one.'') = None)"
proof -
  let ?w1 = "world_of credentials (exited 0 (Some 201) (plain_text '''') (plain_text ''''))"
  let ?w2 = "world_of credentials (exited 0 (Some 200) reply_single (plain_text ''''))"
  have s: "fst (send_twilio_message \<lparr>message = ''hello''\<rparr> ?w1)
             = Inr (content_result ''Message sent successfully'')"
    by (simp add: send_twilio_message_def getenv_def py_all_4 create_subprocess_exec_def
          world_of_def credentials_def exited_def)
  have v: "fst (verify_twilio_message \<lparr>expected_message = None\<rparr> ?w2)
             = Inr (error_result ''Not enough messages found to retrieve the second-to-last one.'')"
    by (simp add: verify_twilio_message_def inspect_response_def getenv_def py_all_2
          create_subprocess_exec_def world_of_def credentials_def exited_def reply_single_def)
  from result_has_exactly_one_field
         [of "\<lparr>message = ''hello''\<rparr>" ?w1 "\<lparr>expected_message = None\<rparr>", THEN conjunct1, rule_format, OF s]
       result_has_exactly_one_field
         [of "\<lparr>message = ''hello''\<rparr>" ?w2 "\<lparr>expected_message = None\<rparr>", THEN conjunct2, rule_format, OF v]
       s v
  show ?thesis by blast
qed

end
